theory Spec2Isabelle
  imports Main
begin

section \<open>JavaScript values\<close>

text \<open>
  Event payloads and documents are JSON-like JavaScript values. \<open>JNum n\<close> is an
  integer-valued number (the safe integers, whose decimal rendering is exact); an object is
  the list of its own properties, a property read taking the first binding of a name.
\<close>

datatype jsval =
    JUndefined
  | JNull
  | JBool bool
  | JNum int
  | JStr string
  | JArr "jsval list"
  | JObj "(string \<times> jsval) list"

datatype error =
    TypeError
  | UnknownConnection

definition and_then :: "error + 'a \<Rightarrow> ('a \<Rightarrow> error + 'b) \<Rightarrow> error + 'b" where
  "and_then m f = (case m of Inl e \<Rightarrow> Inl e | Inr v \<Rightarrow> f v)"

text \<open>
  Parameter destructuring \<^verbatim>\<open>({ streamId, message }) => ...\<close>: \<^verbatim>\<open>undefined\<close> and
  \<^verbatim>\<open>null\<close> cannot be destructured (a TypeError); an object yields the property or
  \<^verbatim>\<open>undefined\<close>; any other value has none of the names the handlers ask for
  (\<^verbatim>\<open>conversationId\<close>, \<^verbatim>\<open>userId\<close>, \<^verbatim>\<open>isTyping\<close>, \<^verbatim>\<open>streamId\<close>, \<^verbatim>\<open>message\<close>,
  \<^verbatim>\<open>emoji\<close>: none is an index, \<^verbatim>\<open>length\<close> or a prototype property).
\<close>

fun destructure :: "jsval \<Rightarrow> string \<Rightarrow> error + jsval" where
  "destructure JUndefined k = Inl TypeError"
| "destructure JNull k = Inl TypeError"
| "destructure (JObj kvs) k = Inr (case map_of kvs k of None \<Rightarrow> JUndefined | Some v \<Rightarrow> v)"
| "destructure v k = Inr JUndefined"

function nat_str :: "nat \<Rightarrow> string" where
  "nat_str n =
     (if n < 10 then [''0123456789'' ! n]
      else nat_str (n div 10) @ [''0123456789'' ! (n mod 10)])"
  by pat_completeness auto
termination
  by (relation "measure id") auto

definition num_str :: "int \<Rightarrow> string" where
  "num_str n = (if n < 0 then ''-'' @ nat_str (nat (- n)) else nat_str (nat n))"

text \<open>
  The string a template literal \<^verbatim>\<open>`${v}`\<close> puts in for \<open>v\<close>. An array is joined with
  commas, \<^verbatim>\<open>undefined\<close> and \<^verbatim>\<open>null\<close> elements giving the empty string. A plain object
  gives \<^verbatim>\<open>[object Object]\<close>, unless it has an own property \<^verbatim>\<open>toString\<close>: a value
  that arrived as JSON is not callable, and the conversion raises a TypeError.
\<close>

fun to_str :: "jsval \<Rightarrow> error + string"
  and join_elems :: "jsval list \<Rightarrow> error + string" where
  "to_str JUndefined = Inr ''undefined''"
| "to_str JNull = Inr ''null''"
| "to_str (JBool b) = Inr (if b then ''true'' else ''false'')"
| "to_str (JNum n) = Inr (num_str n)"
| "to_str (JStr s) = Inr s"
| "to_str (JArr xs) = join_elems xs"
| "to_str (JObj kvs) =
     (if ''toString'' \<in> fst ` set kvs then Inl TypeError else Inr ''[object Object]'')"
| "join_elems [] = Inr ''''"
| "join_elems (x # xs) =
     and_then (if x = JUndefined \<or> x = JNull then Inr '''' else to_str x) (\<lambda>s.
       if xs = [] then Inr s
       else and_then (join_elems xs) (\<lambda>t. Inr (s @ '','' @ t)))"

section \<open>Connection Registry and Room Router\<close>

type_synonym sid = string
type_synonym room = string

text \<open>The events the server sends: name and payload of each \<^verbatim>\<open>emit\<close> of the source.\<close>

datatype out_event =
    UserTyping jsval jsval    \<comment> \<open>\<^verbatim>\<open>'user-typing', { userId, isTyping }\<close>\<close>
  | ViewerJoined sid          \<comment> \<open>\<^verbatim>\<open>'viewer-joined', { socketId }\<close>\<close>
  | ViewerLeft sid            \<comment> \<open>\<^verbatim>\<open>'viewer-left', { socketId }\<close>\<close>
  | ChatMessage jsval         \<comment> \<open>\<^verbatim>\<open>'chat-message', message\<close>\<close>
  | Reaction jsval jsval      \<comment> \<open>\<^verbatim>\<open>'reaction', { emoji, userId }\<close>\<close>

text \<open>The lines the handlers write with \<^verbatim>\<open>console.log\<close>.\<close>

datatype log_line =
    UserConnected sid         \<comment> \<open>\<^verbatim>\<open>'User connected:', socket.id\<close>\<close>
  | UserJoinedRoom string     \<comment> \<open>\<^verbatim>\<open>`User ${userId} joined their room`\<close>\<close>
  | UserDisconnected sid      \<comment> \<open>\<^verbatim>\<open>'User disconnected:', socket.id\<close>\<close>

text \<open>
  The state of one server instance: the registry (each live connection with the rooms it
  has joined), the members of each room, what has been delivered to each connection
  (oldest first), and the console.
\<close>

record state =
  conns :: "sid \<rightharpoonup> room set"
  rooms :: "room \<Rightarrow> sid set"
  inbox :: "sid \<Rightarrow> out_event list"
  console :: "log_line list"

definition init :: state where
  "init = \<lparr>conns = Map.empty, rooms = (\<lambda>r. {}), inbox = (\<lambda>c. []), console = []\<rparr>"

text \<open>
  Modelled from the spec: the Connection Registry and the Room Router are Socket.IO's
  (\<^verbatim>\<open>socket.join\<close>, \<^verbatim>\<open>socket.leave\<close>, \<^verbatim>\<open>socket.to(room).emit\<close>, \<^verbatim>\<open>io.to(room).emit\<close>
  and the clean-up on disconnect), a library that is not part of the sources. The
  definitions below follow sections 3, 4.1 and 4.2 of the specification. A room is its
  member set: it exists from the first join and is empty after the last leave.
\<close>

definition register :: "sid \<Rightarrow> state \<Rightarrow> state" where
  "register c st = (if c \<in> dom (conns st) then st else st\<lparr>conns := (conns st)(c \<mapsto> {})\<rparr>)"

definition membershipsOf :: "sid \<Rightarrow> state \<Rightarrow> room set option" where
  "membershipsOf c st = conns st c"

definition join :: "sid \<Rightarrow> room \<Rightarrow> state \<Rightarrow> error + state" where
  "join c r st =
     (case conns st c of
        None \<Rightarrow> Inl UnknownConnection
      | Some rs \<Rightarrow>
          Inr (st\<lparr>conns := (conns st)(c \<mapsto> insert r rs),
                  rooms := (rooms st)(r := insert c (rooms st r))\<rparr>))"

definition leave :: "sid \<Rightarrow> room \<Rightarrow> state \<Rightarrow> error + state" where
  "leave c r st =
     (case conns st c of
        None \<Rightarrow> Inl UnknownConnection
      | Some rs \<Rightarrow>
          Inr (st\<lparr>conns := (conns st)(c \<mapsto> rs - {r}),
                  rooms := (rooms st)(r := rooms st r - {c})\<rparr>))"

definition unregister :: "sid \<Rightarrow> state \<Rightarrow> state" where
  "unregister c st =
     (case conns st c of
        None \<Rightarrow> st
      | Some rs \<Rightarrow>
          st\<lparr>rooms := (\<lambda>r. if r \<in> rs then rooms st r - {c} else rooms st r),
             conns := (conns st)(c := None)\<rparr>)"

definition broadcast :: "room \<Rightarrow> out_event \<Rightarrow> sid option \<Rightarrow> state \<Rightarrow> state" where
  "broadcast r ev exclude st =
     st\<lparr>inbox := (\<lambda>c. if c \<in> rooms st r \<and> Some c \<noteq> exclude
                        then inbox st c @ [ev] else inbox st c)\<rparr>"

definition broadcastToAll :: "room \<Rightarrow> out_event \<Rightarrow> state \<Rightarrow> state" where
  "broadcastToAll r ev st = broadcast r ev None st"

section \<open>Event Dispatcher: the handlers of server.js\<close>

text \<open>
  \<^verbatim>\<open>io.on('connection', (socket) => { ... })\<close>: the transport registers the connection,
  the callback logs it and installs the handlers below for \<open>x = socket.id\<close>.
\<close>

definition connection :: "sid \<Rightarrow> state \<Rightarrow> state" where
  "connection x st = (let st1 = register x st in st1\<lparr>console := console st1 @ [UserConnected x]\<rparr>)"

definition on_join :: "sid \<Rightarrow> jsval \<Rightarrow> state \<Rightarrow> error + state" where
  "on_join x userId st =
     and_then (to_str userId) (\<lambda>u.
     and_then (join x (''user:'' @ u) st) (\<lambda>st1.
       Inr (st1\<lparr>console := console st1 @ [UserJoinedRoom u]\<rparr>)))"

definition on_join_conversation :: "sid \<Rightarrow> jsval \<Rightarrow> state \<Rightarrow> error + state" where
  "on_join_conversation x conversationId st =
     and_then (to_str conversationId) (\<lambda>c. join x (''conversation:'' @ c) st)"

definition on_leave_conversation :: "sid \<Rightarrow> jsval \<Rightarrow> state \<Rightarrow> error + state" where
  "on_leave_conversation x conversationId st =
     and_then (to_str conversationId) (\<lambda>c. leave x (''conversation:'' @ c) st)"

definition on_typing :: "sid \<Rightarrow> jsval \<Rightarrow> state \<Rightarrow> error + state" where
  "on_typing x payload st =
     and_then (destructure payload ''conversationId'') (\<lambda>conversationId.
     and_then (destructure payload ''userId'') (\<lambda>userId.
     and_then (destructure payload ''isTyping'') (\<lambda>isTyping.
     and_then (to_str conversationId) (\<lambda>c.
       Inr (broadcast (''conversation:'' @ c) (UserTyping userId isTyping) (Some x) st)))))"

definition on_join_stream :: "sid \<Rightarrow> jsval \<Rightarrow> state \<Rightarrow> error + state" where
  "on_join_stream x streamId st =
     and_then (to_str streamId) (\<lambda>s.
     and_then (join x (''stream:'' @ s) st) (\<lambda>st1.
       Inr (broadcast (''stream:'' @ s) (ViewerJoined x) (Some x) st1)))"

definition on_leave_stream :: "sid \<Rightarrow> jsval \<Rightarrow> state \<Rightarrow> error + state" where
  "on_leave_stream x streamId st =
     and_then (to_str streamId) (\<lambda>s.
     and_then (leave x (''stream:'' @ s) st) (\<lambda>st1.
       Inr (broadcast (''stream:'' @ s) (ViewerLeft x) (Some x) st1)))"

definition on_stream_chat :: "sid \<Rightarrow> jsval \<Rightarrow> state \<Rightarrow> error + state" where
  "on_stream_chat x payload st =
     and_then (destructure payload ''streamId'') (\<lambda>streamId.
     and_then (destructure payload ''message'') (\<lambda>message.
     and_then (to_str streamId) (\<lambda>s.
       Inr (broadcastToAll (''stream:'' @ s) (ChatMessage message) st))))"

definition on_stream_reaction :: "sid \<Rightarrow> jsval \<Rightarrow> state \<Rightarrow> error + state" where
  "on_stream_reaction x payload st =
     and_then (destructure payload ''streamId'') (\<lambda>streamId.
     and_then (destructure payload ''emoji'') (\<lambda>emoji.
     and_then (destructure payload ''userId'') (\<lambda>userId.
     and_then (to_str streamId) (\<lambda>s.
       Inr (broadcastToAll (''stream:'' @ s) (Reaction emoji userId) st)))))"

text \<open>The handler of \<^verbatim>\<open>disconnect\<close> only logs; the rooms are left by the registry.\<close>

definition on_disconnect :: "sid \<Rightarrow> state \<Rightarrow> state" where
  "on_disconnect x st = st\<lparr>console := console st @ [UserDisconnected x]\<rparr>"

datatype event =
    Join jsval
  | JoinConversation jsval
  | LeaveConversation jsval
  | Typing jsval
  | JoinStream jsval
  | LeaveStream jsval
  | StreamChat jsval
  | StreamReaction jsval
  | Disconnect

fun dispatch :: "sid \<Rightarrow> event \<Rightarrow> state \<Rightarrow> error + state" where
  "dispatch x (Join v) st = on_join x v st"
| "dispatch x (JoinConversation v) st = on_join_conversation x v st"
| "dispatch x (LeaveConversation v) st = on_leave_conversation x v st"
| "dispatch x (Typing v) st = on_typing x v st"
| "dispatch x (JoinStream v) st = on_join_stream x v st"
| "dispatch x (LeaveStream v) st = on_leave_stream x v st"
| "dispatch x (StreamChat v) st = on_stream_chat x v st"
| "dispatch x (StreamReaction v) st = on_stream_reaction x v st"
| "dispatch x Disconnect st = Inr (on_disconnect x (unregister x st))"

text \<open>
  The event loop is single-threaded: each inbound event is handled to completion before
  the next. An exception that a handler raises ends the run with that error.
\<close>

fun run :: "(sid \<times> event) list \<Rightarrow> state \<Rightarrow> error + state" where
  "run [] st = Inr st"
| "run (e # es) st = and_then (dispatch (fst e) (snd e) st) (run es)"

section \<open>User model: toJSON\<close>

text \<open>
  The method \<^verbatim>\<open>userSchema.methods.toJSON\<close>. Its argument is the plain object that
  \<^verbatim>\<open>this.toObject()\<close> returns (Mongoose's, taken as given), as the list of its own properties.
\<close>

text \<open>What \<^verbatim>\<open>if (v)\<close> takes as true.\<close>

fun truthy :: "jsval \<Rightarrow> bool" where
  "truthy JUndefined = False"
| "truthy JNull = False"
| "truthy (JBool b) = b"
| "truthy (JNum n) = (n \<noteq> 0)"
| "truthy (JStr s) = (s \<noteq> [])"
| "truthy (JArr xs) = True"
| "truthy (JObj kvs) = True"

text \<open>
  Reading, testing and deleting an own property of a plain object, and replacing the value of
  one (the write-back of a mutation of the object stored there).
\<close>

definition get_prop :: "(string \<times> jsval) list \<Rightarrow> string \<Rightarrow> jsval" where
  "get_prop kvs k = (case map_of kvs k of None \<Rightarrow> JUndefined | Some v \<Rightarrow> v)"

definition has_prop :: "(string \<times> jsval) list \<Rightarrow> string \<Rightarrow> bool" where
  "has_prop kvs k = (map_of kvs k \<noteq> None)"

definition delete_prop :: "string \<Rightarrow> (string \<times> jsval) list \<Rightarrow> (string \<times> jsval) list" where
  "delete_prop k kvs = filter (\<lambda>kv. fst kv \<noteq> k) kvs"

fun update_prop :: "string \<Rightarrow> (jsval \<Rightarrow> jsval) \<Rightarrow> (string \<times> jsval) list \<Rightarrow> (string \<times> jsval) list" where
  "update_prop k f [] = []"
| "update_prop k f (kv # kvs) =
     (if fst kv = k then (k, f (snd kv)) # kvs else kv # update_prop k f kvs)"

text \<open>
  \<^verbatim>\<open>delete v.k\<close> for a truthy \<open>v\<close> and one of the three token names: an object loses the
  property; on a string, number, boolean or array there is no such property and nothing
  happens.
\<close>

fun delete_field :: "string \<Rightarrow> jsval \<Rightarrow> jsval" where
  "delete_field k (JObj kvs) = JObj (delete_prop k kvs)"
| "delete_field k v = v"

definition strip_tokens :: "jsval \<Rightarrow> jsval" where
  "strip_tokens v =
     delete_field ''accessSecret'' (delete_field ''refreshToken'' (delete_field ''accessToken'' v))"

definition strip_provider :: "string \<Rightarrow> (string \<times> jsval) list \<Rightarrow> (string \<times> jsval) list" where
  "strip_provider provider profile =
     (if truthy (get_prop profile provider) then update_prop provider strip_tokens profile
      else profile)"

text \<open>
  \<^verbatim>\<open>Object.keys(obj.oauthProfile).forEach(provider => ...)\<close>: the keys are taken once,
  each is visited in turn and the entry read from the profile as it then is. The keys of an
  array are its indices, so each element is visited once. A number or boolean has no keys; the
  entries of a string are its characters, on which the deletions do nothing.
\<close>

fun strip_profile :: "jsval \<Rightarrow> jsval" where
  "strip_profile (JObj profile) = JObj (fold strip_provider (map fst profile) profile)"
| "strip_profile (JArr xs) = JArr (map (\<lambda>v. if truthy v then strip_tokens v else v) xs)"
| "strip_profile v = v"

definition toJSON :: "(string \<times> jsval) list \<Rightarrow> (string \<times> jsval) list" where
  "toJSON this =
     (let obj = delete_prop ''backupCodes'' (delete_prop ''twoFactorSecret''
                  (delete_prop ''emailVerificationToken'' (delete_prop ''resetPasswordToken''
                    (delete_prop ''password'' this))))
      in if truthy (get_prop obj ''oauthProfile'')
         then update_prop ''oauthProfile'' strip_profile obj
         else obj)"

section \<open>Scenarios\<close>

text \<open>Connection X alone in room \<^verbatim>\<open>stream:s1\<close>.\<close>

definition alone_in_s1 :: state where
  "alone_in_s1 =
     \<lparr>conns = [''X'' \<mapsto> {''stream:s1''}],
      rooms = (\<lambda>r. {})(''stream:s1'' := {''X''}),
      inbox = (\<lambda>c. []),
      console = [UserConnected ''X'']\<rparr>"

text \<open>Connections A, B and C in room \<^verbatim>\<open>conversation:c1\<close>.\<close>

definition conv_abc :: state where
  "conv_abc =
     \<lparr>conns = [''A'' \<mapsto> {''conversation:c1''}, ''B'' \<mapsto> {''conversation:c1''},
               ''C'' \<mapsto> {''conversation:c1''}],
      rooms = (\<lambda>r. {})(''conversation:c1'' := {''A'', ''B'', ''C''}),
      inbox = (\<lambda>c. []),
      console = [UserConnected ''A'', UserConnected ''B'', UserConnected ''C'']\<rparr>"

text \<open>Connection Y in room \<^verbatim>\<open>stream:s1\<close>, connection X in no room yet.\<close>

definition y_in_s1 :: state where
  "y_in_s1 =
     \<lparr>conns = [''Y'' \<mapsto> {''stream:s1''}, ''X'' \<mapsto> {}],
      rooms = (\<lambda>r. {})(''stream:s1'' := {''Y''}),
      inbox = (\<lambda>c. []),
      console = [UserConnected ''Y'', UserConnected ''X'']\<rparr>"

text \<open>
  Connection X in rooms \<^verbatim>\<open>user:u1\<close> and \<^verbatim>\<open>conversation:c1\<close>, connection Y in
  \<^verbatim>\<open>conversation:c1\<close>.
\<close>

definition x_in_two :: state where
  "x_in_two =
     \<lparr>conns = [''X'' \<mapsto> {''user:u1'', ''conversation:c1''}, ''Y'' \<mapsto> {''conversation:c1''}],
      rooms = (\<lambda>r. {})(''user:u1'' := {''X''}, ''conversation:c1'' := {''X'', ''Y''}),
      inbox = (\<lambda>c. []),
      console = [UserConnected ''X'', UserConnected ''Y'', UserJoinedRoom ''u1'']\<rparr>"

text \<open>
  Connection Y in rooms \<^verbatim>\<open>stream:s1\<close> and \<^verbatim>\<open>conversation:c1\<close>, connection X
  connected and in no room.
\<close>

definition x_outside :: state where
  "x_outside =
     \<lparr>conns = [''Y'' \<mapsto> {''stream:s1'', ''conversation:c1''}, ''X'' \<mapsto> {}],
      rooms = (\<lambda>r. {})(''stream:s1'' := {''Y''}, ''conversation:c1'' := {''Y''}),
      inbox = (\<lambda>c. []),
      console = [UserConnected ''Y'', UserConnected ''X'']\<rparr>"

text \<open>
  Connection Y in room \<^verbatim>\<open>conversation:undefined\<close> (it sent \<^verbatim>\<open>join-conversation\<close>
  with no argument), connection X connected and in no room.
\<close>

definition y_in_undefined :: state where
  "y_in_undefined =
     \<lparr>conns = [''Y'' \<mapsto> {''conversation:undefined''}, ''X'' \<mapsto> {}],
      rooms = (\<lambda>r. {})(''conversation:undefined'' := {''Y''}),
      inbox = (\<lambda>c. []),
      console = [UserConnected ''Y'', UserConnected ''X'']\<rparr>"

text \<open>A user document with a password, tokens of two providers and an unlinked provider.\<close>

definition user_doc :: "(string \<times> jsval) list" where
  "user_doc =
     [(''name'', JStr ''Ada''),
      (''email'', JStr ''ada@example.org''),
      (''password'', JStr ''$2a$10$hash''),
      (''oauthProfile'', JObj
         [(''google'', JObj [(''id'', JStr ''g1''), (''accessToken'', JStr ''ya29''),
                            (''refreshToken'', JStr ''1//r'')]),
          (''facebook'', JUndefined),
          (''twitter'', JObj [(''id'', JStr ''t1''), (''accessToken'', JStr ''tok''),
                             (''accessSecret'', JStr ''sec'')])]),
      (''resetPasswordToken'', JStr ''abc''),
      (''twoFactorSecret'', JStr ''otp''),
      (''backupCodes'', JArr [JObj [(''code'', JStr ''1234''), (''used'', JBool False)]])]"

section \<open>Basic facts\<close>



lemma and_then_Inr [simp]: "and_then (Inr a) f = f a"
  by (simp add: and_then_def)

lemma and_then_Inl [simp]: "and_then (Inl e) f = Inl e"
  by (simp add: and_then_def)

lemma rooms_broadcast [simp]: "rooms (broadcast r ev ex st) = rooms st"
  by (simp add: broadcast_def)

lemma conns_broadcast [simp]: "conns (broadcast r ev ex st) = conns st"
  by (simp add: broadcast_def)

lemma console_broadcast [simp]: "console (broadcast r ev ex st) = console st"
  by (simp add: broadcast_def)

lemma inbox_broadcast:
  "inbox (broadcast r ev ex st) c =
     (if c \<in> rooms st r \<and> Some c \<noteq> ex then inbox st c @ [ev] else inbox st c)"
  by (simp add: broadcast_def)





text \<open>Each scenario is reached from the initial state by the events named.\<close>

lemma alone_in_s1_reached:
  "run [(''X'', JoinStream (JStr ''s1''))] (connection ''X'' init) = Inr alone_in_s1"
  by (auto simp: alone_in_s1_def on_join_stream_def join_def connection_def register_def
                init_def broadcast_def fun_eq_iff)

lemma conv_abc_reached:
  "run [(''A'', JoinConversation (JStr ''c1'')), (''B'', JoinConversation (JStr ''c1'')),
        (''C'', JoinConversation (JStr ''c1''))]
     (connection ''C'' (connection ''B'' (connection ''A'' init))) = Inr conv_abc"
  by (auto simp: conv_abc_def on_join_conversation_def join_def connection_def register_def
                init_def fun_eq_iff)

lemma y_in_s1_reached:
  "run [(''Y'', JoinStream (JStr ''s1''))] (connection ''X'' (connection ''Y'' init)) = Inr y_in_s1"
  by (auto simp: y_in_s1_def on_join_stream_def join_def connection_def register_def
                init_def broadcast_def fun_eq_iff)

lemma x_in_two_reached:
  "run [(''X'', Join (JStr ''u1'')), (''X'', JoinConversation (JStr ''c1'')),
        (''Y'', JoinConversation (JStr ''c1''))]
     (connection ''Y'' (connection ''X'' init)) = Inr x_in_two"
  by (auto simp: x_in_two_def on_join_def on_join_conversation_def join_def connection_def
                register_def init_def fun_eq_iff)

lemma x_outside_reached:
  "run [(''Y'', JoinConversation (JStr ''c1'')), (''Y'', LeaveStream (JStr ''s0'')),
        (''Y'', JoinStream (JStr ''s1''))]
     (connection ''X'' (connection ''Y'' init)) = Inr x_outside"
  by (auto simp: x_outside_def on_join_stream_def on_leave_stream_def on_join_conversation_def
                join_def leave_def connection_def register_def init_def broadcast_def fun_eq_iff)

lemma y_in_undefined_reached:
  "run [(''Y'', JoinConversation JUndefined)] (connection ''X'' (connection ''Y'' init))
     = Inr y_in_undefined"
  by (auto simp: y_in_undefined_def on_join_conversation_def join_def connection_def
                register_def init_def fun_eq_iff)

section \<open>Stream chat is echoed to the whole room\<close>

text \<open>
  Claim C1. A \<^verbatim>\<open>stream-chat\<close> event whose payload has the fields \<open>streamId\<close> and
  \<open>message\<close> is handled without error, whoever sends it: every member of the room
  \<^verbatim>\<open>stream:\<close> followed by the stream id is delivered a \<^verbatim>\<open>chat-message\<close> carrying the
  message unchanged, the sender included when it is a member, and nobody else is delivered
  anything. A sender alone in the room receives its own echo.
\<close>

theorem stream_chat_echo:
  assumes "destructure payload ''streamId'' = Inr streamId"
    and "destructure payload ''message'' = Inr message"
    and "to_str streamId = Inr s"
  shows "\<exists>st'. dispatch x (StreamChat payload) st = Inr st' \<and>
           (\<forall>c. c \<in> rooms st (''stream:'' @ s) \<longrightarrow>
                  inbox st' c = inbox st c @ [ChatMessage message]) \<and>
           (\<forall>c. c \<notin> rooms st (''stream:'' @ s) \<longrightarrow> inbox st' c = inbox st c) \<and>
           (rooms st (''stream:'' @ s) = {x} \<longrightarrow>
              inbox st' x = inbox st x @ [ChatMessage message])"
  using assms by (simp add: on_stream_chat_def broadcastToAll_def inbox_broadcast)

theorem stream_chat_echo_witness:
  "\<exists>st'. dispatch ''X'' (StreamChat (JObj [(''streamId'', JStr ''s1''), (''message'', JStr ''hi'')]))
            alone_in_s1 = Inr st' \<and>
         inbox st' ''X'' = [ChatMessage (JStr ''hi'')]"
  using stream_chat_echo [of "JObj [(''streamId'', JStr ''s1''), (''message'', JStr ''hi'')]"
      "JStr ''s1''" "JStr ''hi''" "''s1''" "''X''" alone_in_s1]
  by (auto simp: alone_in_s1_def)

section \<open>Typing indicators skip the sender\<close>

text \<open>
  Claim C2. A \<^verbatim>\<open>typing\<close> event with the fields \<open>conversationId\<close>, \<open>userId\<close> and
  \<open>isTyping\<close> is handled without error: every member of the room \<^verbatim>\<open>conversation:\<close>
  followed by the conversation id, other than the sender, is delivered a \<^verbatim>\<open>user-typing\<close>
  event with that \<open>userId\<close> and \<open>isTyping\<close>; the sender is delivered nothing.
\<close>

theorem typing_excludes_sender:
  assumes "destructure payload ''conversationId'' = Inr conversationId"
    and "destructure payload ''userId'' = Inr userId"
    and "destructure payload ''isTyping'' = Inr isTyping"
    and "to_str conversationId = Inr c"
  shows "\<exists>st'. dispatch x (Typing payload) st = Inr st' \<and>
           (\<forall>y. y \<in> rooms st (''conversation:'' @ c) \<longrightarrow> y \<noteq> x \<longrightarrow>
                  inbox st' y = inbox st y @ [UserTyping userId isTyping]) \<and>
           inbox st' x = inbox st x"
  using assms by (simp add: on_typing_def inbox_broadcast)

theorem typing_excludes_sender_witness:
  "\<exists>st'. dispatch ''A''
            (Typing (JObj [(''conversationId'', JStr ''c1''), (''userId'', JStr ''u1''),
                           (''isTyping'', JBool True)])) conv_abc = Inr st' \<and>
         inbox st' ''B'' = [UserTyping (JStr ''u1'') (JBool True)] \<and>
         inbox st' ''C'' = [UserTyping (JStr ''u1'') (JBool True)] \<and>
         inbox st' ''A'' = []"
  using typing_excludes_sender [of
      "JObj [(''conversationId'', JStr ''c1''), (''userId'', JStr ''u1''), (''isTyping'', JBool True)]"
      "JStr ''c1''" "JStr ''u1''" "JBool True" "''c1''" "''A''" conv_abc]
  by (auto simp: conv_abc_def)

section \<open>Joining a stream\<close>

text \<open>
  Claim C3. A \<^verbatim>\<open>join-stream\<close> event from a registered connection X is handled without
  error: X becomes a member of the room \<^verbatim>\<open>stream:\<close> followed by the stream id, the room
  is recorded among X's memberships, every member that was already in the room, other than
  X, is delivered a \<^verbatim>\<open>viewer-joined\<close> event carrying X's connection id, and X itself is
  delivered nothing.
\<close>

theorem join_stream_notifies_others:
  assumes "membershipsOf x st = Some rs"
    and "to_str streamId = Inr s"
  shows "\<exists>st'. dispatch x (JoinStream streamId) st = Inr st' \<and>
           rooms st' (''stream:'' @ s) = insert x (rooms st (''stream:'' @ s)) \<and>
           membershipsOf x st' = Some (insert (''stream:'' @ s) rs) \<and>
           (\<forall>y. y \<in> rooms st (''stream:'' @ s) \<longrightarrow> y \<noteq> x \<longrightarrow>
                  inbox st' y = inbox st y @ [ViewerJoined x]) \<and>
           inbox st' x = inbox st x"
  using assms
  by (simp add: on_join_stream_def membershipsOf_def join_def inbox_broadcast)

theorem join_stream_notifies_others_witness:
  "\<exists>st'. dispatch ''X'' (JoinStream (JStr ''s1'')) y_in_s1 = Inr st' \<and>
         rooms st' ''stream:s1'' = {''X'', ''Y''} \<and>
         inbox st' ''Y'' = [ViewerJoined ''X''] \<and>
         inbox st' ''X'' = []"
  using join_stream_notifies_others [of "''X''" y_in_s1 "{}" "JStr ''s1''" "''s1''"]
  by (auto simp: y_in_s1_def membershipsOf_def)

section \<open>Disconnecting\<close>



section \<open>No membership check before a broadcast\<close>



section \<open>Unknown connections and empty rooms\<close>

text \<open>
  Claim C6. With a connection id that is not in the registry, join and leave, and the
  \<^verbatim>\<open>join-conversation\<close> and \<^verbatim>\<open>leave-conversation\<close> handlers that call them, fail
  with the error UnknownConnection; with a registered connection they succeed; a
  broadcast to a room without members returns the state unchanged and is no error.
\<close>

theorem unknown_connection_fails_loudly:
  assumes "to_str conversationId = Inr c"
  shows "(membershipsOf x st = None \<longrightarrow>
            join x r st = Inl UnknownConnection \<and> leave x r st = Inl UnknownConnection \<and>
            dispatch x (JoinConversation conversationId) st = Inl UnknownConnection \<and>
            dispatch x (LeaveConversation conversationId) st = Inl UnknownConnection) \<and>
         (membershipsOf x st \<noteq> None \<longrightarrow>
            (\<exists>st'. join x r st = Inr st') \<and> (\<exists>st'. leave x r st = Inr st') \<and>
            (\<exists>st'. dispatch x (JoinConversation conversationId) st = Inr st') \<and>
            (\<exists>st'. dispatch x (LeaveConversation conversationId) st = Inr st')) \<and>
         (rooms st r = {} \<longrightarrow> broadcast r ev ex st = st \<and> broadcastToAll r ev st = st)"
  using assms
  by (auto simp: membershipsOf_def join_def leave_def on_join_conversation_def
                 on_leave_conversation_def broadcast_def broadcastToAll_def)

theorem unknown_connection_fails_loudly_witness:
  "to_str (JStr ''c1'') = Inr ''c1'' \<and>
   membershipsOf ''Z'' y_in_s1 = None \<and>
   dispatch ''Z'' (JoinConversation (JStr ''c1'')) y_in_s1 = Inl UnknownConnection \<and>
   dispatch ''Z'' (LeaveConversation (JStr ''c1'')) y_in_s1 = Inl UnknownConnection \<and>
   membershipsOf ''X'' y_in_s1 \<noteq> None \<and>
   (\<exists>st'. dispatch ''X'' (JoinConversation (JStr ''c1'')) y_in_s1 = Inr st') \<and>
   (\<exists>st'. dispatch ''X'' (LeaveConversation (JStr ''c1'')) y_in_s1 = Inr st') \<and>
   rooms y_in_s1 ''stream:s2'' = {} \<and>
   broadcast ''stream:s2'' (ViewerJoined ''X'') (Some ''X'') y_in_s1 = y_in_s1"
proof -
  have t: "to_str (JStr ''c1'') = Inr ''c1''"
    by simp
  have z: "membershipsOf ''Z'' y_in_s1 = None"
    by (simp add: y_in_s1_def membershipsOf_def)
  have x: "membershipsOf ''X'' y_in_s1 \<noteq> None"
    by (simp add: y_in_s1_def membershipsOf_def)
  have e: "rooms y_in_s1 ''stream:s2'' = {}"
    by (simp add: y_in_s1_def)
  from unknown_connection_fails_loudly [OF t, of "''Z''" y_in_s1] z
  have "dispatch ''Z'' (JoinConversation (JStr ''c1'')) y_in_s1 = Inl UnknownConnection"
    and "dispatch ''Z'' (LeaveConversation (JStr ''c1'')) y_in_s1 = Inl UnknownConnection"
    by blast+
  moreover from unknown_connection_fails_loudly [OF t, of "''X''" y_in_s1 "''stream:s2''"] x e
  have "\<exists>st'. dispatch ''X'' (JoinConversation (JStr ''c1'')) y_in_s1 = Inr st'"
    and "\<exists>st'. dispatch ''X'' (LeaveConversation (JStr ''c1'')) y_in_s1 = Inr st'"
    and "broadcast ''stream:s2'' (ViewerJoined ''X'') (Some ''X'') y_in_s1 = y_in_s1"
    by blast+
  ultimately show ?thesis
    using t z x e by blast
qed

section \<open>Malformed payloads\<close>

lemma destructure_Inl: "destructure p k = Inl e \<Longrightarrow> e = TypeError"
  by (cases p) auto

lemma destructure_Inr_ex:
  "destructure p k = Inr v \<Longrightarrow> \<exists>w. destructure p k' = Inr w"
  by (cases p) auto

lemma to_str_Inl: "to_str v = Inl e \<Longrightarrow> e = TypeError"
  and join_elems_Inl: "join_elems vs = Inl e \<Longrightarrow> e = TypeError"
  by (induction v and vs rule: to_str_join_elems.induct)
     (auto simp: and_then_def split: if_splits sum.splits)

lemma on_typing_Inl: "on_typing x p st = Inl e \<Longrightarrow> e = TypeError"
  by (auto simp: on_typing_def and_then_def split: sum.splits dest: destructure_Inl to_str_Inl)

lemma on_stream_chat_Inl: "on_stream_chat x p st = Inl e \<Longrightarrow> e = TypeError"
  by (auto simp: on_stream_chat_def and_then_def split: sum.splits dest: destructure_Inl to_str_Inl)

lemma on_stream_reaction_Inl: "on_stream_reaction x p st = Inl e \<Longrightarrow> e = TypeError"
  by (auto simp: on_stream_reaction_def and_then_def split: sum.splits
           dest: destructure_Inl to_str_Inl)

lemma on_typing_Inr:
  "on_typing x p st = Inr st' \<Longrightarrow>
     conns st' = conns st \<and> rooms st' = rooms st \<and> console st' = console st"
  by (auto simp: on_typing_def and_then_def split: sum.splits)

lemma on_stream_chat_Inr:
  "on_stream_chat x p st = Inr st' \<Longrightarrow>
     conns st' = conns st \<and> rooms st' = rooms st \<and> console st' = console st"
  by (auto simp: on_stream_chat_def broadcastToAll_def and_then_def split: sum.splits)

lemma on_stream_reaction_Inr:
  "on_stream_reaction x p st = Inr st' \<Longrightarrow>
     conns st' = conns st \<and> rooms st' = rooms st \<and> console st' = console st"
  by (auto simp: on_stream_reaction_def broadcastToAll_def and_then_def split: sum.splits)

text \<open>
  Claim C7, as stated, fails. A \<^verbatim>\<open>typing\<close> event whose payload lacks
  \<open>conversationId\<close> is not dropped: it is broadcast to the room
  \<^verbatim>\<open>conversation:undefined\<close>, whose member Y is delivered it, and nothing is written to
  the console. A \<^verbatim>\<open>typing\<close> event without payload makes the handler raise a TypeError.
\<close>

theorem malformed_payload_counterexample:
  "dispatch ''X'' (Typing (JObj [(''userId'', JStr ''u1''), (''isTyping'', JBool True)]))
       y_in_undefined
     = Inr (broadcast ''conversation:undefined'' (UserTyping (JStr ''u1'') (JBool True))
              (Some ''X'') y_in_undefined) \<and>
   inbox (broadcast ''conversation:undefined'' (UserTyping (JStr ''u1'') (JBool True))
              (Some ''X'') y_in_undefined) ''Y'' = [UserTyping (JStr ''u1'') (JBool True)] \<and>
   console (broadcast ''conversation:undefined'' (UserTyping (JStr ''u1'') (JBool True))
              (Some ''X'') y_in_undefined) = console y_in_undefined \<and>
   dispatch ''X'' (Typing JUndefined) y_in_undefined = Inl TypeError"
  by (simp add: on_typing_def inbox_broadcast y_in_undefined_def)

text \<open>
  Claim C7, amended. For a \<^verbatim>\<open>typing\<close>, \<^verbatim>\<open>stream-chat\<close> or \<^verbatim>\<open>stream-reaction\<close>
  event with any payload: an \<^verbatim>\<open>undefined\<close> or \<^verbatim>\<open>null\<close> payload makes the handler raise
  a TypeError, the only error these handlers raise; when the handler returns, the registry,
  the rooms' members and the console are as before (no warning is logged, the sender stays
  registered, no other connection's room is touched); and a payload that can be destructured
  but lacks the room id is not dropped: it is broadcast to the room named with
  \<^verbatim>\<open>undefined\<close>, the other missing fields being \<^verbatim>\<open>undefined\<close>.
\<close>

theorem malformed_payload_handling:
  assumes "ev = Typing p \<or> ev = StreamChat p \<or> ev = StreamReaction p"
  shows "(p = JUndefined \<or> p = JNull \<longrightarrow> dispatch x ev st = Inl TypeError) \<and>
         (\<forall>e. dispatch x ev st = Inl e \<longrightarrow> e = TypeError) \<and>
         (\<forall>st'. dispatch x ev st = Inr st' \<longrightarrow>
            conns st' = conns st \<and> rooms st' = rooms st \<and> console st' = console st) \<and>
         (destructure p ''conversationId'' = Inr JUndefined \<longrightarrow>
            (\<exists>u t. destructure p ''userId'' = Inr u \<and> destructure p ''isTyping'' = Inr t \<and>
               dispatch x (Typing p) st =
                 Inr (broadcast ''conversation:undefined'' (UserTyping u t) (Some x) st))) \<and>
         (destructure p ''streamId'' = Inr JUndefined \<longrightarrow>
            (\<exists>m. destructure p ''message'' = Inr m \<and>
               dispatch x (StreamChat p) st =
                 Inr (broadcastToAll ''stream:undefined'' (ChatMessage m) st)) \<and>
            (\<exists>e u. destructure p ''emoji'' = Inr e \<and> destructure p ''userId'' = Inr u \<and>
               dispatch x (StreamReaction p) st =
                 Inr (broadcastToAll ''stream:undefined'' (Reaction e u) st)))"
proof (intro conjI allI impI)
  assume "p = JUndefined \<or> p = JNull"
  with assms show "dispatch x ev st = Inl TypeError"
    by (auto simp: on_typing_def on_stream_chat_def on_stream_reaction_def)
next
  fix e assume "dispatch x ev st = Inl e"
  with assms show "e = TypeError"
    by (auto dest: on_typing_Inl on_stream_chat_Inl on_stream_reaction_Inl)
next
  fix st' assume r: "dispatch x ev st = Inr st'"
  with assms show "conns st' = conns st"
    by (auto dest: on_typing_Inr on_stream_chat_Inr on_stream_reaction_Inr)
  from r assms show "rooms st' = rooms st"
    by (auto dest: on_typing_Inr on_stream_chat_Inr on_stream_reaction_Inr)
  from r assms show "console st' = console st"
    by (auto dest: on_typing_Inr on_stream_chat_Inr on_stream_reaction_Inr)
next
  assume h: "destructure p ''conversationId'' = Inr JUndefined"
  from destructure_Inr_ex [OF h] obtain u where u: "destructure p ''userId'' = Inr u"
    by blast
  from destructure_Inr_ex [OF h] obtain t where t: "destructure p ''isTyping'' = Inr t"
    by blast
  have "dispatch x (Typing p) st =
      Inr (broadcast ''conversation:undefined'' (UserTyping u t) (Some x) st)"
    using h u t by (simp add: on_typing_def)
  with u t show "\<exists>u t. destructure p ''userId'' = Inr u \<and> destructure p ''isTyping'' = Inr t \<and>
      dispatch x (Typing p) st =
        Inr (broadcast ''conversation:undefined'' (UserTyping u t) (Some x) st)"
    by blast
next
  assume h: "destructure p ''streamId'' = Inr JUndefined"
  from destructure_Inr_ex [OF h] obtain m where m: "destructure p ''message'' = Inr m"
    by blast
  have "dispatch x (StreamChat p) st =
      Inr (broadcastToAll ''stream:undefined'' (ChatMessage m) st)"
    using h m by (simp add: on_stream_chat_def)
  with m show "\<exists>m. destructure p ''message'' = Inr m \<and>
      dispatch x (StreamChat p) st =
        Inr (broadcastToAll ''stream:undefined'' (ChatMessage m) st)"
    by blast
next
  assume h: "destructure p ''streamId'' = Inr JUndefined"
  from destructure_Inr_ex [OF h] obtain e where e: "destructure p ''emoji'' = Inr e"
    by blast
  from destructure_Inr_ex [OF h] obtain u where u: "destructure p ''userId'' = Inr u"
    by blast
  have "dispatch x (StreamReaction p) st =
      Inr (broadcastToAll ''stream:undefined'' (Reaction e u) st)"
    using h e u by (simp add: on_stream_reaction_def)
  with e u show "\<exists>e u. destructure p ''emoji'' = Inr e \<and> destructure p ''userId'' = Inr u \<and>
      dispatch x (StreamReaction p) st =
        Inr (broadcastToAll ''stream:undefined'' (Reaction e u) st)"
    by blast
qed

theorem malformed_payload_handling_witness:
  "dispatch ''X'' (Typing JNull) y_in_undefined = Inl TypeError \<and>
   destructure (JObj [(''message'', JStr ''hi'')]) ''streamId'' = Inr JUndefined \<and>
   dispatch ''X'' (StreamChat (JObj [(''message'', JStr ''hi'')])) y_in_undefined =
     Inr (broadcastToAll ''stream:undefined'' (ChatMessage (JStr ''hi'')) y_in_undefined) \<and>
   rooms (broadcastToAll ''stream:undefined'' (ChatMessage (JStr ''hi'')) y_in_undefined) =
     rooms y_in_undefined"
proof -
  let ?p = "JObj [(''message'', JStr ''hi'')]"
  have a: "dispatch ''X'' (Typing JNull) y_in_undefined = Inl TypeError"
    using malformed_payload_handling [OF disjI1 [OF refl],
        where p = JNull and x = "''X''" and st = y_in_undefined, THEN conjunct1]
    by simp
  have h: "destructure ?p ''streamId'' = Inr JUndefined"
    by simp
  have m: "destructure ?p ''message'' = Inr (JStr ''hi'')"
    by simp
  note chat = malformed_payload_handling [OF disjI2 [OF disjI1 [OF refl]],
        where p = ?p and x = "''X''" and st = y_in_undefined]
  from chat have "\<exists>m. destructure ?p ''message'' = Inr m \<and>
      dispatch ''X'' (StreamChat ?p) y_in_undefined =
        Inr (broadcastToAll ''stream:undefined'' (ChatMessage m) y_in_undefined)"
    using h by blast
  with m have b: "dispatch ''X'' (StreamChat ?p) y_in_undefined =
      Inr (broadcastToAll ''stream:undefined'' (ChatMessage (JStr ''hi'')) y_in_undefined)"
    by auto
  from chat b have c:
    "rooms (broadcastToAll ''stream:undefined'' (ChatMessage (JStr ''hi'')) y_in_undefined) =
       rooms y_in_undefined"
    by blast
  from a h b c show ?thesis
    by blast
qed

section \<open>Order of delivery\<close>

text \<open>
  Claim C8. For every room and every connection that is a member of it: when two broadcasts
  to the room are issued one after the other and the connection is excluded from neither,
  it is delivered the two events in the order of the broadcasts, after everything delivered
  to it before. In particular two \<^verbatim>\<open>typing\<close> events for the same conversation reach
  every other member of the conversation room in the order in which they were handled.
\<close>

theorem typing_fifo:
  "(y \<in> rooms st r \<longrightarrow> Some y \<noteq> ex1 \<longrightarrow> Some y \<noteq> ex2 \<longrightarrow>
      inbox (broadcast r e2 ex2 (broadcast r e1 ex1 st)) y = inbox st y @ [e1, e2]) \<and>
   (y \<in> rooms st (''conversation:'' @ c) \<longrightarrow> y \<noteq> x1 \<longrightarrow> y \<noteq> x2 \<longrightarrow>
    destructure p1 ''conversationId'' = Inr v1 \<longrightarrow> to_str v1 = Inr c \<longrightarrow>
    destructure p1 ''userId'' = Inr u1 \<longrightarrow> destructure p1 ''isTyping'' = Inr t1 \<longrightarrow>
    destructure p2 ''conversationId'' = Inr v2 \<longrightarrow> to_str v2 = Inr c \<longrightarrow>
    destructure p2 ''userId'' = Inr u2 \<longrightarrow> destructure p2 ''isTyping'' = Inr t2 \<longrightarrow>
      (\<exists>st2. run [(x1, Typing p1), (x2, Typing p2)] st = Inr st2 \<and>
         inbox st2 y = inbox st y @ [UserTyping u1 t1, UserTyping u2 t2]))"
proof (intro conjI impI)
  assume "y \<in> rooms st r" and "Some y \<noteq> ex1" and "Some y \<noteq> ex2"
  then show "inbox (broadcast r e2 ex2 (broadcast r e1 ex1 st)) y = inbox st y @ [e1, e2]"
    by (simp add: inbox_broadcast)
next
  assume "y \<in> rooms st (''conversation:'' @ c)" and "y \<noteq> x1" and "y \<noteq> x2"
    and "destructure p1 ''conversationId'' = Inr v1" and "to_str v1 = Inr c"
    and "destructure p1 ''userId'' = Inr u1" and "destructure p1 ''isTyping'' = Inr t1"
    and "destructure p2 ''conversationId'' = Inr v2" and "to_str v2 = Inr c"
    and "destructure p2 ''userId'' = Inr u2" and "destructure p2 ''isTyping'' = Inr t2"
  then show "\<exists>st2. run [(x1, Typing p1), (x2, Typing p2)] st = Inr st2 \<and>
         inbox st2 y = inbox st y @ [UserTyping u1 t1, UserTyping u2 t2]"
    by (simp add: on_typing_def inbox_broadcast)
qed

theorem typing_fifo_witness:
  "''Y'' \<in> rooms y_in_s1 ''stream:s1'' \<and>
   inbox (broadcast ''stream:s1'' (ChatMessage (JStr ''hi'')) None
           (broadcast ''stream:s1'' (ViewerJoined ''X'') (Some ''X'') y_in_s1)) ''Y''
     = [ViewerJoined ''X'', ChatMessage (JStr ''hi'')] \<and>
   ''B'' \<in> rooms conv_abc ''conversation:c1'' \<and>
   (\<exists>st2. run [(''A'', Typing (JObj [(''conversationId'', JStr ''c1''), (''userId'', JStr ''u1''),
                                    (''isTyping'', JBool True)])),
                (''A'', Typing (JObj [(''conversationId'', JStr ''c1''), (''userId'', JStr ''u1''),
                                    (''isTyping'', JBool False)]))] conv_abc = Inr st2 \<and>
      inbox st2 ''B'' = [UserTyping (JStr ''u1'') (JBool True), UserTyping (JStr ''u1'') (JBool False)])"
proof -
  let ?p1 = "JObj [(''conversationId'', JStr ''c1''), (''userId'', JStr ''u1''),
                   (''isTyping'', JBool True)]"
  let ?p2 = "JObj [(''conversationId'', JStr ''c1''), (''userId'', JStr ''u1''),
                   (''isTyping'', JBool False)]"
  have y: "''Y'' \<in> rooms y_in_s1 ''stream:s1''"
    by (simp add: y_in_s1_def)
  have y0: "inbox y_in_s1 ''Y'' = []"
    by (simp add: y_in_s1_def)
  have ex: "Some ''Y'' \<noteq> Some ''X''" "Some ''Y'' \<noteq> (None :: sid option)"
    by simp_all
  from typing_fifo [where y = "''Y''" and st = y_in_s1 and r = "''stream:s1''"
      and ?ex1.0 = "Some ''X''" and ?ex2.0 = None
      and ?e1.0 = "ViewerJoined ''X''" and ?e2.0 = "ChatMessage (JStr ''hi'')", THEN conjunct1]
    y ex
  have "inbox (broadcast ''stream:s1'' (ChatMessage (JStr ''hi'')) None
           (broadcast ''stream:s1'' (ViewerJoined ''X'') (Some ''X'') y_in_s1)) ''Y''
     = inbox y_in_s1 ''Y'' @ [ViewerJoined ''X'', ChatMessage (JStr ''hi'')]"
    by blast
  with y0 have a: "inbox (broadcast ''stream:s1'' (ChatMessage (JStr ''hi'')) None
           (broadcast ''stream:s1'' (ViewerJoined ''X'') (Some ''X'') y_in_s1)) ''Y''
     = [ViewerJoined ''X'', ChatMessage (JStr ''hi'')]"
    by simp
  have b: "''B'' \<in> rooms conv_abc (''conversation:'' @ ''c1'')"
    by (simp add: conv_abc_def)
  have b0: "inbox conv_abc ''B'' = []"
    by (simp add: conv_abc_def)
  have ne: "''B'' \<noteq> ''A''"
    by simp
  have d1: "destructure ?p1 ''conversationId'' = Inr (JStr ''c1'')"
    "destructure ?p1 ''userId'' = Inr (JStr ''u1'')"
    "destructure ?p1 ''isTyping'' = Inr (JBool True)"
    by simp_all
  have d2: "destructure ?p2 ''conversationId'' = Inr (JStr ''c1'')"
    "destructure ?p2 ''userId'' = Inr (JStr ''u1'')"
    "destructure ?p2 ''isTyping'' = Inr (JBool False)"
    by simp_all
  have t: "to_str (JStr ''c1'') = Inr ''c1''"
    by simp
  from typing_fifo [where y = "''B''" and st = conv_abc and c = "''c1''"
      and ?x1.0 = "''A''" and ?x2.0 = "''A''" and ?p1.0 = ?p1 and ?p2.0 = ?p2, THEN conjunct2,
      rule_format, OF b ne ne d1(1) t d1(2) d1(3) d2(1) t d2(2) d2(3)]
  obtain st2 where
    r: "run [(''A'', Typing ?p1), (''A'', Typing ?p2)] conv_abc = Inr st2" and
    i: "inbox st2 ''B'' =
          inbox conv_abc ''B'' @ [UserTyping (JStr ''u1'') (JBool True),
                                  UserTyping (JStr ''u1'') (JBool False)]"
    by blast
  from i b0 have "inbox st2 ''B'' =
      [UserTyping (JStr ''u1'') (JBool True), UserTyping (JStr ''u1'') (JBool False)]"
    by simp
  with r have c: "\<exists>st2. run [(''A'', Typing ?p1), (''A'', Typing ?p2)] conv_abc = Inr st2 \<and>
      inbox st2 ''B'' =
        [UserTyping (JStr ''u1'') (JBool True), UserTyping (JStr ''u1'') (JBool False)]"
    by blast
  from b have b': "''B'' \<in> rooms conv_abc ''conversation:c1''"
    by simp
  from y a b' c show ?thesis
    by blast
qed

section \<open>Join and leave are idempotent\<close>

text \<open>
  Claim C9. For a registered connection and any room, leave succeeds and a second leave
  right after it returns the same state; likewise join. The same holds for the
  \<^verbatim>\<open>leave-conversation\<close> and \<^verbatim>\<open>join-conversation\<close> events: handling the event twice
  gives the state that handling it once gives.
\<close>

theorem join_leave_idempotent:
  assumes "membershipsOf c st = Some rs" and "to_str conversationId = Inr s"
  shows "(\<exists>st1. leave c r st = Inr st1 \<and> leave c r st1 = Inr st1) \<and>
         (\<exists>st1. join c r st = Inr st1 \<and> join c r st1 = Inr st1) \<and>
         (\<exists>st1. run [(c, LeaveConversation conversationId)] st = Inr st1 \<and>
            run [(c, LeaveConversation conversationId), (c, LeaveConversation conversationId)] st
              = Inr st1) \<and>
         (\<exists>st1. run [(c, JoinConversation conversationId)] st = Inr st1 \<and>
            run [(c, JoinConversation conversationId), (c, JoinConversation conversationId)] st
              = Inr st1)"
  using assms
  by (simp add: membershipsOf_def join_def leave_def on_join_conversation_def
                on_leave_conversation_def)

theorem join_leave_idempotent_witness:
  "membershipsOf ''A'' conv_abc = Some {''conversation:c1''} \<and>
   (\<exists>st1. run [(''A'', LeaveConversation (JStr ''c1''))] conv_abc = Inr st1 \<and>
      run [(''A'', LeaveConversation (JStr ''c1'')), (''A'', LeaveConversation (JStr ''c1''))]
        conv_abc = Inr st1 \<and> rooms st1 ''conversation:c1'' = {''B'', ''C''})"
proof -
  have m: "membershipsOf ''A'' conv_abc = Some {''conversation:c1''}"
    by (simp add: conv_abc_def membershipsOf_def)
  have t: "to_str (JStr ''c1'') = Inr ''c1''"
    by simp
  from join_leave_idempotent [OF m t, of "''conversation:c1''"] obtain st1 where
    one: "run [(''A'', LeaveConversation (JStr ''c1''))] conv_abc = Inr st1" and
    two: "run [(''A'', LeaveConversation (JStr ''c1'')), (''A'', LeaveConversation (JStr ''c1''))]
        conv_abc = Inr st1"
    by blast
  from one have "rooms st1 ''conversation:c1'' = {''B'', ''C''}"
    by (auto simp: on_leave_conversation_def leave_def conv_abc_def)
  with m one two show ?thesis
    by blast
qed

section \<open>toJSON hides the secrets\<close>

lemma map_of_delete_prop:
  "map_of (delete_prop k kvs) k' = (if k' = k then None else map_of kvs k')"
  by (induction kvs) (auto simp: delete_prop_def)

lemma map_of_update_prop:
  "map_of (update_prop k f kvs) k' =
     (if k' = k then map_option f (map_of kvs k) else map_of kvs k')"
  by (induction kvs) auto

lemma truthy_strip_tokens [simp]: "truthy (strip_tokens v) = truthy v"
  by (cases v) (simp_all add: strip_tokens_def)

lemma strip_tokens_idem [simp]: "strip_tokens (strip_tokens v) = strip_tokens v"
  by (cases v) (simp_all add: strip_tokens_def delete_prop_def cong: conj_cong)

lemma map_of_strip_provider:
  "map_of (strip_provider p profile) k =
     (if k = p then map_option (\<lambda>v. if truthy v then strip_tokens v else v) (map_of profile k)
      else map_of profile k)"
  by (auto simp: strip_provider_def get_prop_def map_of_update_prop map_option_case
           split: option.splits)

lemma map_of_fold_strip_provider:
  "map_of (fold strip_provider ks profile) k =
     (if k \<in> set ks then map_option (\<lambda>v. if truthy v then strip_tokens v else v) (map_of profile k)
      else map_of profile k)"
proof (induction ks arbitrary: profile)
  case Nil
  then show ?case by simp
next
  case (Cons p ks)
  show ?case
    by (cases "map_of profile k") (auto simp: Cons.IH map_of_strip_provider)
qed

lemma strip_tokens_no_tokens:
  assumes "strip_tokens v = JObj entry" and "t \<in> {''accessToken'', ''refreshToken'', ''accessSecret''}"
  shows "\<not> has_prop entry t"
  using assms
  by (cases v) (auto simp: strip_tokens_def has_prop_def map_of_delete_prop)


lemma strip_profile_entry:
  assumes "strip_profile v = JObj profile" and "get_prop profile provider = JObj entry"
  shows "\<exists>w. strip_tokens w = JObj entry"
proof -
  from assms(1) obtain p0 where v: "v = JObj p0"
    and profile: "profile = fold strip_provider (map fst p0) p0"
    by (cases v) auto
  from assms(2) have some: "map_of profile provider = Some (JObj entry)"
    by (auto simp: get_prop_def split: option.splits)
  show ?thesis
  proof (cases "map_of p0 provider")
    case None
    then have "map_of profile provider = None"
      by (simp add: profile map_of_fold_strip_provider)
    with some show ?thesis by simp
  next
    case (Some w)
    then have "provider \<in> set (map fst p0)"
      by (metis map_of_eq_None_iff option.distinct(1) set_map)
    with Some some have "(if truthy w then strip_tokens w else w) = JObj entry"
      by (simp add: profile map_of_fold_strip_provider)
    then have "strip_tokens w = JObj entry"
      by (cases "truthy w") auto
    then show ?thesis ..
  qed
qed

text \<open>
  The \<open>oauthProfile\<close> of the result is falsy and untouched, or it went through
  \<open>strip_profile\<close>.
\<close>

lemma toJSON_oauthProfile:
  "\<not> truthy (get_prop (toJSON this) ''oauthProfile'') \<or>
   (\<exists>v. get_prop (toJSON this) ''oauthProfile'' = strip_profile v)"
proof -
  define obj where "obj = delete_prop ''backupCodes'' (delete_prop ''twoFactorSecret''
                  (delete_prop ''emailVerificationToken'' (delete_prop ''resetPasswordToken''
                    (delete_prop ''password'' this))))"
  have unfold: "toJSON this =
      (if truthy (get_prop obj ''oauthProfile'')
       then update_prop ''oauthProfile'' strip_profile obj else obj)"
    by (simp add: toJSON_def obj_def)
  show ?thesis
  proof (cases "truthy (get_prop obj ''oauthProfile'')")
    case True
    then have "get_prop (toJSON this) ''oauthProfile'' = strip_profile (get_prop obj ''oauthProfile'')"
      by (auto simp: unfold get_prop_def map_of_update_prop split: option.splits)
    then show ?thesis by blast
  next
    case False
    then show ?thesis by (simp add: unfold)
  qed
qed

text \<open>
  Claim C10. For every user document, the object that toJSON returns has none of the
  properties \<open>password\<close>, \<open>resetPasswordToken\<close>, \<open>emailVerificationToken\<close>,
  \<open>twoFactorSecret\<close> and \<open>backupCodes\<close>, and every provider entry of its
  \<open>oauthProfile\<close> has none of \<open>accessToken\<close>, \<open>refreshToken\<close> and \<open>accessSecret\<close>
  (the entries of an object, and the elements should the profile be an array).
\<close>

theorem toJSON_hides_secrets:
  "(\<forall>k \<in> {''password'', ''resetPasswordToken'', ''emailVerificationToken'',
            ''twoFactorSecret'', ''backupCodes''}. \<not> has_prop (toJSON this) k) \<and>
   (\<forall>profile provider entry t.
      get_prop (toJSON this) ''oauthProfile'' = JObj profile \<longrightarrow>
      get_prop profile provider = JObj entry \<longrightarrow>
      t \<in> {''accessToken'', ''refreshToken'', ''accessSecret''} \<longrightarrow> \<not> has_prop entry t) \<and>
   (\<forall>entries entry t.
      get_prop (toJSON this) ''oauthProfile'' = JArr entries \<longrightarrow>
      JObj entry \<in> set entries \<longrightarrow>
      t \<in> {''accessToken'', ''refreshToken'', ''accessSecret''} \<longrightarrow> \<not> has_prop entry t)"
proof (intro conjI ballI allI impI)
  fix k :: string
  assume "k \<in> {''password'', ''resetPasswordToken'', ''emailVerificationToken'',
            ''twoFactorSecret'', ''backupCodes''}"
  then show "\<not> has_prop (toJSON this) k"
    by (auto simp: toJSON_def has_prop_def Let_def map_of_update_prop map_of_delete_prop)
next
  fix profile provider entry and t :: string
  assume prof: "get_prop (toJSON this) ''oauthProfile'' = JObj profile"
    and ent: "get_prop profile provider = JObj entry"
    and t: "t \<in> {''accessToken'', ''refreshToken'', ''accessSecret''}"
  from toJSON_oauthProfile [of this] prof have "\<exists>v. strip_profile v = JObj profile"
    by auto
  then obtain v where "strip_profile v = JObj profile" ..
  from strip_profile_entry [OF this ent] obtain w where "strip_tokens w = JObj entry" ..
  from strip_tokens_no_tokens [OF this t] show "\<not> has_prop entry t" .
next
  fix entries entry and t :: string
  assume prof: "get_prop (toJSON this) ''oauthProfile'' = JArr entries"
    and ent: "JObj entry \<in> set entries"
    and t: "t \<in> {''accessToken'', ''refreshToken'', ''accessSecret''}"
  from toJSON_oauthProfile [of this] prof have "\<exists>v. strip_profile v = JArr entries"
    by auto
  then obtain v where "strip_profile v = JArr entries" ..
  then obtain xs where "entries = map (\<lambda>v. if truthy v then strip_tokens v else v) xs"
    by (cases v) auto
  with ent have "JObj entry \<in> (\<lambda>v. if truthy v then strip_tokens v else v) ` set xs"
    by simp
  then obtain w where "JObj entry = (if truthy w then strip_tokens w else w)" ..
  then have "strip_tokens w = JObj entry"
    by (cases "truthy w") auto
  from strip_tokens_no_tokens [OF this t] show "\<not> has_prop entry t" .
qed

theorem toJSON_hides_secrets_witness:
  "\<not> has_prop (toJSON user_doc) ''password'' \<and>
   get_prop (toJSON user_doc) ''oauthProfile'' =
     JObj [(''google'', JObj [(''id'', JStr ''g1'')]), (''facebook'', JUndefined),
           (''twitter'', JObj [(''id'', JStr ''t1'')])] \<and>
   \<not> has_prop [(''id'', JStr ''g1'')] ''accessToken''"
proof -
  have p: "get_prop (toJSON user_doc) ''oauthProfile'' =
     JObj [(''google'', JObj [(''id'', JStr ''g1'')]), (''facebook'', JUndefined),
           (''twitter'', JObj [(''id'', JStr ''t1'')])]"
    by (simp add: toJSON_def user_doc_def delete_prop_def get_prop_def strip_provider_def
                  strip_tokens_def)
  have g: "get_prop [(''google'', JObj [(''id'', JStr ''g1'')]), (''facebook'', JUndefined),
           (''twitter'', JObj [(''id'', JStr ''t1'')])] ''google'' = JObj [(''id'', JStr ''g1'')]"
    by (simp add: get_prop_def)
  from toJSON_hides_secrets [of user_doc] p g show ?thesis
    by blast
qed

end
